theory Spec2Isabelle
  imports
    Complex_Main
    "HOL-Library.Multiset"
    "HOL-Library.Sublist"
    "HOL-Library.Char_ord"
    "HOL-Library.List_Lexorder"
    "HOL-Library.Product_Lexorder"
begin

section \<open>Top query per page: the data frame operations of \<open>app.py\<close>\<close>

text \<open>
  The development embeds \<open>fetch_query_page\<close> and \<open>get_top_query\<close> of \<open>src/app.py\<close>.
  A pandas data frame is a list of rows in positional order; the index labels of the frame
  fetched are distinct, so assigning a column row by row is what the alignment on labels
  does, and no cell is missing. A Python string is a \<open>string\<close>
  whose characters are code points below 256; strings are compared as Python compares them,
  code point by code point, a proper prefix being smaller (the orders of
  \<open>Char_ord\<close> and \<open>List_Lexorder\<close>). The messages that \<open>fetch_query_page\<close> logs and shows
  on the page are not part of the model.
\<close>

subsection \<open>Rows and tables\<close>

text \<open>
  The rows of the Search Console report for the dimensions \<open>query\<close> and \<open>page\<close>.
  The two columns that \<open>get_top_query\<close> adds (lines 193 and 195) extend the row.
\<close>

record gsc_row =
  query :: string
  page :: string
  clicks :: int
  impressions :: int
  ctr :: real

record top_row = gsc_row +
  top_query :: string

record report_row = top_row +
  q_pages_top_query :: nat

text \<open>The returned data frame: its column labels in order, and its rows.\<close>

record report =
  columns :: "string list"
  rows :: "report_row list"

text \<open>The radio selector of \<open>show_metrics_selector\<close> offers these two column names.\<close>

datatype metric = Clicks | Impressions

fun metric_of :: "metric \<Rightarrow> 'a gsc_row_scheme \<Rightarrow> int" where
  "metric_of Clicks r = clicks r"
| "metric_of Impressions r = impressions r"

text \<open>Python values that may arrive as \<open>zero_clicks\<close>; only equality with a string is used.\<close>

datatype pyval = PyStr string | PyBool bool | PyInt int | PyNone

fun py_eq_str :: "pyval \<Rightarrow> string \<Rightarrow> bool" where
  "py_eq_str (PyStr s) t = (s = t)"
| "py_eq_str (PyBool b) t = False"
| "py_eq_str (PyInt i) t = False"
| "py_eq_str PyNone t = False"

text \<open>
  The exceptions that leave \<open>get_top_query\<close>: \<open>Exception("No hay Dataframe")\<close> of line 178,
  and \<open>re.error\<close> when the brand pattern does not compile.
\<close>

datatype error = No_hay_Dataframe | Re_error

subsection \<open>String methods\<close>

text \<open>\<open>s.split(sep)\<close> for a one-character separator: never an empty list.\<close>

fun py_split :: "char \<Rightarrow> string \<Rightarrow> string list" where
  "py_split sep [] = [[]]"
| "py_split sep (c # cs) =
     (if c = sep then [] # py_split sep cs
      else (case py_split sep cs of
              [] \<Rightarrow> [[c]]
            | w # ws \<Rightarrow> (c # w) # ws))"

text \<open>\<open>str.isspace\<close> on one character, for the code points below 256.\<close>

definition isspace :: "char \<Rightarrow> bool" where
  "isspace c = (of_char c \<in> set [9, 10, 11, 12, 13, 28, 29, 30, 31, 32, 133, 160 :: nat])"

text \<open>\<open>str.strip\<close> without argument.\<close>

definition py_strip :: "string \<Rightarrow> string" where
  "py_strip s = rev (dropWhile isspace (rev (dropWhile isspace s)))"

text \<open>\<open>sep.join(xs)\<close>.\<close>

fun py_join :: "string \<Rightarrow> string list \<Rightarrow> string" where
  "py_join sep [] = []"
| "py_join sep [x] = x"
| "py_join sep (x # y # ys) = x @ sep @ py_join sep (y # ys)"

subsection \<open>The regular expression engine\<close>

text \<open>
  \<open>Series.str.contains(pat)\<close> compiles \<open>pat\<close> with Python's \<open>re\<close> and keeps, for each value,
  whether \<open>search\<close> finds a match. The engine is a parameter of the model: applied to a
  pattern it yields \<open>None\<close> when compiling raises \<open>re.error\<close>, and otherwise the predicate
  "the pattern matches somewhere in the value".
\<close>

type_synonym re_engine = "string \<Rightarrow> (string \<Rightarrow> bool) option"

text \<open>
  The part of \<open>re\<close> made concrete here: patterns built from ordinary characters, the
  wildcard \<open>.\<close> (any character but a newline) and the alternation \<open>|\<close>. What \<open>re\<close> does
  with a pattern that holds any other special character is not spelled out: it is the
  parameter \<open>other\<close> of \<open>py_re\<close>, an engine of its own.
\<close>

definition re_special :: "char \<Rightarrow> bool" where
  "re_special c = (c \<in> set [CHR 0x5C, CHR ''^'', CHR ''$'', CHR ''*'', CHR ''+'', CHR ''?'',
                              CHR ''{'', CHR ''}'', CHR ''['', CHR '']'', CHR ''('', CHR '')''])"

fun match_here :: "string \<Rightarrow> string \<Rightarrow> bool" where
  "match_here [] s = True"
| "match_here (p # ps) [] = False"
| "match_here (p # ps) (c # cs) =
     ((if p = CHR ''.'' then c \<noteq> CHR 0x0A else c = p) \<and> match_here ps cs)"

fun search_alt :: "string \<Rightarrow> string \<Rightarrow> bool" where
  "search_alt p [] = match_here p []"
| "search_alt p (c # cs) = (match_here p (c # cs) \<or> search_alt p cs)"

definition py_re :: "re_engine \<Rightarrow> re_engine" where
  "py_re other pat =
     (if list_ex re_special pat then other pat
      else Some (\<lambda>s. list_ex (\<lambda>alt. search_alt alt s) (py_split CHR ''|'' pat)))"

subsection \<open>Data frame methods\<close>

text \<open>
  \<open>df.sort_values(by=[a, b], ascending=[True, False])\<close> for a string column \<open>a\<close> and an
  integer column \<open>b\<close>. With several sort columns pandas sorts stably: rows that agree on
  both columns keep their order.
\<close>

definition sort_values :: "('r \<Rightarrow> string) \<Rightarrow> ('r \<Rightarrow> int) \<Rightarrow> 'r list \<Rightarrow> 'r list" where
  "sort_values a b df = sort_key (\<lambda>r. (a r, - b r)) df"

text \<open>
  \<open>df.groupby(k)[v].transform('first')\<close>: for each row, the value of column \<open>v\<close> in the
  first row of the frame that has the same \<open>k\<close>. The row itself has that \<open>k\<close>, so the
  search always finds one.
\<close>

definition transform_first :: "('r \<Rightarrow> 'k) \<Rightarrow> ('r \<Rightarrow> 'v) \<Rightarrow> 'r list \<Rightarrow> 'r \<Rightarrow> 'v" where
  "transform_first k v df r =
     (case find (\<lambda>r'. k r' = k r) df of Some r' \<Rightarrow> v r' | None \<Rightarrow> v r)"

text \<open>
  \<open>df.groupby(k)[v].transform('count')\<close>: for each row, the number of rows with the same
  \<open>k\<close> (column \<open>v\<close> holds strings, none of them missing).
\<close>

definition transform_count :: "('r \<Rightarrow> 'k) \<Rightarrow> 'r list \<Rightarrow> 'r \<Rightarrow> nat" where
  "transform_count k df r = length (filter (\<lambda>r'. k r' = k r) df)"

subsection \<open>\<open>fetch_query_page\<close> (lines 147 to 169)\<close>

text \<open>
  The argument is the outcome of the request of lines 155 to 160: an exception (its
  message) or the data frame received. On an exception, and on an empty frame, the function
  reports the error on the page and returns an empty frame.
\<close>

definition fetch_query_page :: "string + gsc_row list \<Rightarrow> gsc_row list" where
  "fetch_query_page got =
     (case got of
        Inl e \<Rightarrow> []
      | Inr df \<Rightarrow> if df = [] then [] else df)"

subsection \<open>\<open>get_top_query\<close> (lines 171 to 201)\<close>

text \<open>Lines 182 to 184: the brand filter.\<close>

definition brand_terms :: "string \<Rightarrow> string list" where
  "brand_terms brand_term = map py_strip (py_split CHR '','' brand_term)"

definition brand_pattern :: "string \<Rightarrow> string" where
  "brand_pattern brand_term = py_join ''|'' (brand_terms brand_term)"

definition brand_filter :: "re_engine \<Rightarrow> string \<Rightarrow> gsc_row list \<Rightarrow> error + gsc_row list" where
  "brand_filter re brand_term df =
     (if brand_term \<noteq> [] then
        (case re (brand_pattern brand_term) of
           None \<Rightarrow> Inl Re_error
         | Some contains \<Rightarrow> Inr (filter (\<lambda>r. \<not> contains (query r)) df))
      else Inr df)"

text \<open>Lines 186 to 188: the zero-click filter.\<close>

definition zero_clicks_filter :: "pyval \<Rightarrow> gsc_row list \<Rightarrow> gsc_row list" where
  "zero_clicks_filter zero_clicks df =
     (if py_eq_str zero_clicks ''Si'' then filter (\<lambda>r. clicks r > 0) df else df)"

text \<open>Lines 182 to 188 together.\<close>

definition apply_filters :: "re_engine \<Rightarrow> string \<Rightarrow> pyval \<Rightarrow> gsc_row list \<Rightarrow> error + gsc_row list" where
  "apply_filters re brand_term zero_clicks df =
     (case brand_filter re brand_term df of
        Inl e \<Rightarrow> Inl e
      | Inr df' \<Rightarrow> Inr (zero_clicks_filter zero_clicks df'))"

text \<open>Line 193: the column \<open>top_query\<close>.\<close>

definition add_top_query :: "gsc_row list \<Rightarrow> top_row list" where
  "add_top_query df =
     map (\<lambda>r. \<lparr>query = query r, page = page r, clicks = clicks r, impressions = impressions r,
               ctr = ctr r, top_query = transform_first page query df r\<rparr>) df"

text \<open>Line 195: the column \<open>q_pages_top_query\<close>.\<close>

definition add_q_pages :: "top_row list \<Rightarrow> report_row list" where
  "add_q_pages df =
     map (\<lambda>r. \<lparr>query = query r, page = page r, clicks = clicks r, impressions = impressions r,
               ctr = ctr r, top_query = top_query r,
               q_pages_top_query = transform_count page df r\<rparr>) df"

text \<open>Line 197: the columns kept, in this order.\<close>

definition report_columns :: "string list" where
  "report_columns =
     [''top_query'', ''query'', ''clicks'', ''impressions'', ''ctr'', ''q_pages_top_query'', ''page'']"

text \<open>Lines 190 to 201, on the filtered frame.\<close>

definition aggregate :: "metric \<Rightarrow> gsc_row list \<Rightarrow> report" where
  "aggregate metrics df =
     (let df1 = sort_values page (metric_of metrics) df;
          df2 = add_top_query df1;
          df3 = add_q_pages df2;
          df4 = sort_values top_query (metric_of metrics) df3
      in \<lparr>columns = report_columns, rows = df4\<rparr>)"

text \<open>
  The whole function. \<open>got\<close> stands for what the request made from \<open>webproperty\<close>,
  \<open>start_date\<close>, \<open>end_date\<close> and \<open>selected_device\<close> brings back.
\<close>

definition get_top_query ::
  "re_engine \<Rightarrow> string + gsc_row list \<Rightarrow> metric \<Rightarrow> string \<Rightarrow> pyval \<Rightarrow> error + report" where
  "get_top_query re got metrics brand_term zero_clicks =
     (let df = fetch_query_page got in
      if df = [] then Inl No_hay_Dataframe
      else (case apply_filters re brand_term zero_clicks df of
              Inl e \<Rightarrow> Inl e
            | Inr df' \<Rightarrow> Inr (aggregate metrics df')))"

subsection \<open>Runs, whatever procedure sorts\<close>

text \<open>
  pandas does not say by which procedure \<open>sort_values\<close> sorts on several columns. What a
  run can rely on is the outcome: the rows of the frame, each as often as before, ordered
  by the two columns, rows that agree on both columns in the order they had.
\<close>

definition sort_values_outcome :: "('r \<Rightarrow> string) \<Rightarrow> ('r \<Rightarrow> int) \<Rightarrow> 'r list \<Rightarrow> 'r list \<Rightarrow> bool" where
  "sort_values_outcome a b df out =
     (mset out = mset df
      \<and> sorted (map (\<lambda>r. (a r, - b r)) out)
      \<and> (\<forall>r\<in>set df. filter (\<lambda>x. (a x, - b x) = (a r, - b r)) out
                     = filter (\<lambda>x. (a x, - b x) = (a r, - b r)) df))"

text \<open>
  One run of lines 190 to 201 on the filtered frame: each of the two calls of \<open>sort_values\<close>
  returns some frame with that outcome.
\<close>

definition aggregate_run :: "metric \<Rightarrow> gsc_row list \<Rightarrow> report \<Rightarrow> bool" where
  "aggregate_run metrics df out =
     (\<exists>df1 df4.
        sort_values_outcome page (metric_of metrics) df df1
      \<and> sort_values_outcome top_query (metric_of metrics) (add_q_pages (add_top_query df1)) df4
      \<and> out = \<lparr>columns = report_columns, rows = df4\<rparr>)"

text \<open>One run of the whole function, ending in the result \<open>res\<close>.\<close>

definition get_top_query_run ::
  "re_engine \<Rightarrow> string + gsc_row list \<Rightarrow> metric \<Rightarrow> string \<Rightarrow> pyval \<Rightarrow> error + report \<Rightarrow> bool" where
  "get_top_query_run re got metrics brand_term zero_clicks res =
     (let df = fetch_query_page got in
      if df = [] then res = Inl No_hay_Dataframe
      else (case apply_filters re brand_term zero_clicks df of
              Inl e \<Rightarrow> res = Inl e
            | Inr df' \<Rightarrow> (\<exists>out. aggregate_run metrics df' out \<and> res = Inr out)))"

subsection \<open>Terms without special characters\<close>

text \<open>
  A brand term is plain when none of its characters means anything to \<open>re\<close>: no special
  character, no wildcard and no alternation bar.
\<close>

definition plain_term :: "string \<Rightarrow> bool" where
  "plain_term t = list_all (\<lambda>c. \<not> re_special c \<and> c \<noteq> CHR ''.'' \<and> c \<noteq> CHR ''|'') t"

subsection \<open>A sample report\<close>

text \<open>
  Six rows over three pages. On page \<open>/x\<close> the queries \<open>b\<close> and \<open>d\<close> tie on clicks and
  \<open>b\<close> comes first; the row of query \<open>a\<close> occurs twice; the only row of page \<open>/z\<close> has no
  click.
\<close>

definition row_a :: gsc_row where
  "row_a = \<lparr>query = ''a'', page = ''/x'', clicks = 5, impressions = 70, ctr = 0.5\<rparr>"

definition row_b :: gsc_row where
  "row_b = \<lparr>query = ''b'', page = ''/x'', clicks = 10, impressions = 30, ctr = 0.25\<rparr>"

definition row_d :: gsc_row where
  "row_d = \<lparr>query = ''d'', page = ''/x'', clicks = 10, impressions = 90, ctr = 0.125\<rparr>"

definition row_c :: gsc_row where
  "row_c = \<lparr>query = ''c'', page = ''/y'', clicks = 1, impressions = 1, ctr = 1\<rparr>"

definition row_z :: gsc_row where
  "row_z = \<lparr>query = ''b'', page = ''/z'', clicks = 0, impressions = 4, ctr = 0\<rparr>"

definition sample :: "gsc_row list" where
  "sample = [row_a, row_b, row_z, row_d, row_c, row_a]"

text \<open>The sample without its zero-click row.\<close>

definition sample_clicked :: "gsc_row list" where
  "sample_clicked = [row_a, row_b, row_d, row_c, row_a]"

definition ranked :: "gsc_row \<Rightarrow> string \<Rightarrow> nat \<Rightarrow> report_row" where
  "ranked r t n =
     \<lparr>query = query r, page = page r, clicks = clicks r, impressions = impressions r,
      ctr = ctr r, top_query = t, q_pages_top_query = n\<rparr>"

text \<open>The report on the sample by clicks, zero-click rows kept.\<close>

definition sample_report :: report where
  "sample_report =
     \<lparr>columns = report_columns,
      rows = [ranked row_b ''b'' 4, ranked row_d ''b'' 4, ranked row_a ''b'' 4,
              ranked row_a ''b'' 4, ranked row_z ''b'' 1, ranked row_c ''c'' 1]\<rparr>"

text \<open>The report on the sample by clicks, zero-click rows dropped.\<close>

definition sample_report_clicked :: report where
  "sample_report_clicked =
     \<lparr>columns = report_columns,
      rows = [ranked row_b ''b'' 4, ranked row_d ''b'' 4, ranked row_a ''b'' 4,
              ranked row_a ''b'' 4, ranked row_c ''c'' 1]\<rparr>"

text \<open>A row whose query is \<open>abc\<close>.\<close>

definition row_abc :: gsc_row where
  "row_abc = \<lparr>query = ''abc'', page = ''/x'', clicks = 1, impressions = 2, ctr = 0.5\<rparr>"

section \<open>Properties\<close>

subsection \<open>Stable sorting and the first row of a group\<close>

lemma sort_key_hd_first_min:
  "xs \<noteq> [] \<Longrightarrow> \<exists>pre x post. xs = pre @ x # post \<and> hd (sort_key f xs) = x
      \<and> (\<forall>y\<in>set pre. f x < f y) \<and> (\<forall>y\<in>set post. f x \<le> f y)"
proof (induction xs)
  case Nil
  then show ?case by simp
next
  case (Cons a xs)
  show ?case
  proof (cases "xs = []")
    case True
    then show ?thesis by (intro exI[of _ "[]"] exI[of _ a]) simp
  next
    case False
    with Cons.IH obtain pre x post where
      xs: "xs = pre @ x # post" and hd: "hd (sort_key f xs) = x"
      and pre: "\<forall>y\<in>set pre. f x < f y" and post: "\<forall>y\<in>set post. f x \<le> f y"
      by blast
    from False have ne: "sort_key f xs \<noteq> []"
      by (metis length_sort length_0_conv)
    then obtain z zs where s: "sort_key f xs = z # zs" by (cases "sort_key f xs") auto
    with hd have zx: "z = x" by simp
    show ?thesis
    proof (cases "f a \<le> f x")
      case True
      have "hd (sort_key f (a # xs)) = a" using s zx True by simp
      moreover have "\<forall>y\<in>set xs. f a \<le> f y"
        using True pre post xs by (auto intro: order_trans less_imp_le)
      ultimately show ?thesis
        by (intro exI[of _ "[]"] exI[of _ a] exI[of _ xs]) simp
    next
      case F: False
      have "hd (sort_key f (a # xs)) = x" using s zx F by simp
      moreover have "\<forall>y\<in>set (a # pre). f x < f y" using F pre by auto
      ultimately show ?thesis using xs post
        by (intro exI[of _ "a # pre"] exI[of _ x] exI[of _ post]) simp
    qed
  qed
qed

lemma find_filter_hd:
  "find P xs = (case filter P xs of [] \<Rightarrow> None | x # _ \<Rightarrow> Some x)"
  by (induction xs) auto

lemma transform_first_hd:
  assumes "r \<in> set df"
  shows "transform_first k v df r = v (hd (filter (\<lambda>r'. k r' = k r) df))"
proof -
  from assms have "filter (\<lambda>r'. k r' = k r) df \<noteq> []"
    by (auto simp: filter_empty_conv)
  then show ?thesis
    by (cases "filter (\<lambda>r'. k r' = k r) df") (simp_all add: transform_first_def find_filter_hd)
qed

lemma map_rebuild_gsc_row:
  "map (\<lambda>x. \<lparr>query = query x, page = page x, clicks = clicks x,
                 impressions = impressions x, ctr = ctr x\<rparr>) (df :: gsc_row list) = df"
  by (rule map_idI) simp

lemma truncate_add_top_query: "map gsc_row.truncate (add_top_query df) = df"
  by (simp add: add_top_query_def gsc_row.truncate_def comp_def map_rebuild_gsc_row)

lemma truncate_add_q_pages: "map gsc_row.truncate (add_q_pages df) = map gsc_row.truncate df"
  by (simp add: add_q_pages_def gsc_row.truncate_def comp_def)

lemma mset_truncate_rows:
  "mset (map gsc_row.truncate (rows (aggregate metrics df))) = mset df"
proof -
  have "mset (map gsc_row.truncate (rows (aggregate metrics df)))
      = image_mset gsc_row.truncate (mset (add_q_pages (add_top_query (sort_values page (metric_of metrics) df))))"
    by (simp add: aggregate_def Let_def sort_values_def)
  also have "\<dots> = mset (map gsc_row.truncate (add_q_pages (add_top_query (sort_values page (metric_of metrics) df))))"
    by simp
  also have "\<dots> = mset (sort_values page (metric_of metrics) df)"
    by (simp only: truncate_add_q_pages truncate_add_top_query)
  also have "\<dots> = mset df" by (simp add: sort_values_def)
  finally show ?thesis .
qed

lemma page_truncate: "page (gsc_row.truncate r) = page r"
  by (simp add: gsc_row.truncate_def)

lemma filter_page_add_top_query:
  "map gsc_row.truncate (filter (\<lambda>r. page r = p) (add_top_query df)) = filter (\<lambda>r. page r = p) df"
  by (simp add: add_top_query_def gsc_row.truncate_def filter_map comp_def map_rebuild_gsc_row)

lemma rows_aggregate_elem:
  assumes "r \<in> set (rows (aggregate metrics df))"
  shows "gsc_row.truncate r \<in> set df
       \<and> top_query r = query (hd (sort_values page (metric_of metrics) (filter (\<lambda>x. page x = page r) df)))
       \<and> q_pages_top_query r = length (filter (\<lambda>x. page x = page r) df)"
proof -
  define df1 where "df1 = sort_values page (metric_of metrics) df"
  define df2 where "df2 = add_top_query df1"
  from assms have "r \<in> set (add_q_pages df2)"
    by (simp add: aggregate_def Let_def sort_values_def df1_def df2_def)
  then obtain r2 where r2: "r2 \<in> set df2"
    and r: "r = \<lparr>query = query r2, page = page r2, clicks = clicks r2, impressions = impressions r2,
               ctr = ctr r2, top_query = top_query r2,
               q_pages_top_query = transform_count page df2 r2\<rparr>"
    by (auto simp: add_q_pages_def)
  from r2 obtain r1 where r1: "r1 \<in> set df1"
    and r2': "r2 = \<lparr>query = query r1, page = page r1, clicks = clicks r1, impressions = impressions r1,
               ctr = ctr r1, top_query = transform_first page query df1 r1\<rparr>"
    by (auto simp: df2_def add_top_query_def)
  have tr: "gsc_row.truncate r = r1" by (simp add: r r2' gsc_row.truncate_def)
  have pg: "page r = page r1" by (simp add: r r2')
  have a: "gsc_row.truncate r \<in> set df" using r1 tr by (simp add: df1_def sort_values_def)
  have "top_query r = transform_first page query df1 r1" by (simp add: r r2')
  also have "\<dots> = query (hd (filter (\<lambda>x. page x = page r1) df1))"
    by (rule transform_first_hd[OF r1])
  also have "filter (\<lambda>x. page x = page r1) df1
           = sort_values page (metric_of metrics) (filter (\<lambda>x. page x = page r) df)"
    by (simp add: df1_def sort_values_def filter_sort pg)
  finally have b: "top_query r = query (hd (sort_values page (metric_of metrics) (filter (\<lambda>x. page x = page r) df)))" .
  have "q_pages_top_query r = length (filter (\<lambda>x. page x = page r) df2)"
    by (simp add: r r2' transform_count_def)
  also have "\<dots> = length (map gsc_row.truncate (filter (\<lambda>x. page x = page r) df2))" by simp
  also have "\<dots> = length (filter (\<lambda>x. page x = page r) df1)"
    by (simp only: df2_def filter_page_add_top_query)
  also have "\<dots> = length (filter (\<lambda>x. page x = page r) df)"
  proof (rule mset_eq_length)
    show "mset (filter (\<lambda>x. page x = page r) df1) = mset (filter (\<lambda>x. page x = page r) df)"
      by (simp add: df1_def sort_values_def)
  qed
  finally have c: "q_pages_top_query r = length (filter (\<lambda>x. page x = page r) df)" .
  from a b c show ?thesis by blast
qed

lemma get_top_query_Inr:
  "get_top_query re got metrics brand_term zero_clicks = Inr out \<longleftrightarrow>
     fetch_query_page got \<noteq> [] \<and>
     (\<exists>df. apply_filters re brand_term zero_clicks (fetch_query_page got) = Inr df
           \<and> out = aggregate metrics df)"
  by (auto simp: get_top_query_def Let_def split: sum.splits)

lemma apply_filters_error:
  "apply_filters re brand_term zero_clicks df = Inl e \<Longrightarrow> e = Re_error"
  by (auto simp: apply_filters_def brand_filter_def split: sum.splits option.splits if_splits)

lemma set_truncate_rows:
  "gsc_row.truncate ` set (rows (aggregate metrics df)) = set df"
  using mset_eq_setD[OF mset_truncate_rows[of metrics df]] by simp

lemma first_max_of_partition:
  assumes "p \<in> page ` set df"
  shows "\<exists>pre x post. filter (\<lambda>r. page r = p) df = pre @ x # post
           \<and> hd (sort_values page (metric_of metrics) (filter (\<lambda>r. page r = p) df)) = x
           \<and> (\<forall>y\<in>set pre. metric_of metrics y < metric_of metrics x)
           \<and> (\<forall>y\<in>set post. metric_of metrics y \<le> metric_of metrics x)"
proof -
  let ?g = "filter (\<lambda>r. page r = p) df"
  let ?k = "\<lambda>r. (page r, - metric_of metrics r)"
  from assms have "?g \<noteq> []" by (auto simp: filter_empty_conv)
  from sort_key_hd_first_min[OF this, of ?k] obtain pre x post where
    g: "?g = pre @ x # post" and h: "hd (sort_key ?k ?g) = x"
    and pre: "\<forall>y\<in>set pre. ?k x < ?k y" and post: "\<forall>y\<in>set post. ?k x \<le> ?k y"
    by blast
  have pg: "page y = p" if "y \<in> set ?g" for y using that by simp
  have px: "page x = p" using pg g by simp
  have "metric_of metrics y < metric_of metrics x" if "y \<in> set pre" for y
  proof -
    have "page y = p" using pg[of y] g that by simp
    with pre that px show ?thesis by auto
  qed
  moreover have "metric_of metrics y \<le> metric_of metrics x" if "y \<in> set post" for y
  proof -
    have "page y = p" using pg[of y] g that by simp
    with post that px show ?thesis by auto
  qed
  ultimately show ?thesis using g h by (auto simp: sort_values_def)
qed

subsection \<open>Splitting, joining and searching\<close>

lemma py_split_no_sep: "sep \<notin> set x \<Longrightarrow> py_split sep x = [x]"
  by (induction x) auto

lemma py_split_append_sep:
  "sep \<notin> set x \<Longrightarrow> py_split sep (x @ sep # rest) = x # py_split sep rest"
  by (induction x) auto

lemma py_split_join:
  "ts \<noteq> [] \<Longrightarrow> \<forall>t\<in>set ts. sep \<notin> set t \<Longrightarrow> py_split sep (py_join [sep] ts) = ts"
  by (induction "[sep]" ts rule: py_join.induct) (simp_all add: py_split_no_sep py_split_append_sep)

lemma py_split_not_Nil: "py_split sep s \<noteq> []"
  by (induction s) (auto split: list.splits)

lemma set_py_join:
  "set (py_join sep ts) \<subseteq> set sep \<union> \<Union> (set ` set ts)"
  by (induction sep ts rule: py_join.induct) auto

lemma match_here_prefix: "CHR ''.'' \<notin> set t \<Longrightarrow> match_here t s = prefix t s"
  by (induction t s rule: match_here.induct) auto

lemma search_alt_sublist: "CHR ''.'' \<notin> set t \<Longrightarrow> search_alt t s = sublist t s"
proof (induction s)
  case Nil
  then show ?case by (cases t) simp_all
next
  case (Cons c cs)
  then show ?case by (simp add: match_here_prefix sublist_Cons_right)
qed

lemma py_re_plain_terms:
  assumes ne: "ts \<noteq> []" and pl: "list_all plain_term ts"
  shows "py_re other (py_join ''|'' ts) = Some (\<lambda>s. \<exists>t\<in>set ts. sublist t s)"
proof -
  have nosp: "\<not> re_special c" if "c \<in> set (py_join ''|'' ts)" for c
  proof -
    from that set_py_join[of "''|''" ts] have "c = CHR ''|'' \<or> (\<exists>t\<in>set ts. c \<in> set t)" by auto
    then show ?thesis
    proof
      assume "c = CHR ''|''" then show ?thesis by (simp add: re_special_def)
    next
      assume "\<exists>t\<in>set ts. c \<in> set t"
      with pl show ?thesis by (auto simp: plain_term_def list_all_iff)
    qed
  qed
  have nobar: "\<forall>t\<in>set ts. CHR ''|'' \<notin> set t"
    using pl by (auto simp: plain_term_def list_all_iff)
  have nodot: "CHR ''.'' \<notin> set t" if "t \<in> set ts" for t
    using pl that by (auto simp: plain_term_def list_all_iff)
  have sp: "py_split CHR ''|'' (py_join ''|'' ts) = ts"
    using py_split_join[OF ne nobar] by simp
  have "(\<lambda>s. list_ex (\<lambda>alt. search_alt alt s) ts) = (\<lambda>s. \<exists>t\<in>set ts. sublist t s)"
    by (rule ext) (auto simp: list_ex_iff search_alt_sublist nodot)
  moreover have "\<not> list_ex re_special (py_join ''|'' ts)"
    using nosp by (auto simp: list_ex_iff)
  ultimately show ?thesis by (simp add: py_re_def sp)
qed

subsection \<open>The outcome of a stable sort is unique\<close>

lemma sort_values_outcome_sort_values: "sort_values_outcome a b df (sort_values a b df)"
  unfolding sort_values_outcome_def sort_values_def
proof (intro conjI ballI)
  show "mset (sort_key (\<lambda>r. (a r, - b r)) df) = mset df" by simp
  show "sorted (map (\<lambda>r. (a r, - b r)) (sort_key (\<lambda>r. (a r, - b r)) df))" by simp
  show "filter (\<lambda>x. (a x, - b x) = (a r, - b r)) (sort_key (\<lambda>r. (a r, - b r)) df)
      = filter (\<lambda>x. (a x, - b x) = (a r, - b r)) df" for r
    by (rule sort_key_stable)
qed

lemma sort_values_outcome_unique:
  assumes "sort_values_outcome a b df out"
  shows "out = sort_values a b df"
proof -
  let ?f = "\<lambda>r. (a r, - b r)"
  from assms have m: "mset out = mset df" and s: "sorted (map ?f out)"
    and st: "\<forall>r\<in>set df. filter (\<lambda>x. ?f x = ?f r) out = filter (\<lambda>x. ?f x = ?f r) df"
    by (simp_all add: sort_values_outcome_def)
  from m have se: "set out = set df" by (rule mset_eq_setD)
  have "sort_key ?f df = out"
  proof (rule properties_for_sort_key)
    show "mset out = mset df" by (rule m)
    show "sorted (map ?f out)" by (rule s)
    show "filter (\<lambda>x. ?f k = ?f x) out = filter (\<lambda>x. ?f k = ?f x) df" if "k \<in> set out" for k
    proof -
      from that se have "k \<in> set df" by simp
      with st have "filter (\<lambda>x. ?f x = ?f k) out = filter (\<lambda>x. ?f x = ?f k) df" by blast
      moreover have "(\<lambda>x. ?f k = ?f x) = (\<lambda>x. ?f x = ?f k)" by (rule ext) (rule eq_commute)
      ultimately show ?thesis by simp
    qed
  qed
  then show ?thesis by (simp add: sort_values_def)
qed

lemma aggregate_run_iff: "aggregate_run metrics df out \<longleftrightarrow> out = aggregate metrics df"
proof
  assume "aggregate_run metrics df out"
  then obtain df1 df4 where
    a: "sort_values_outcome page (metric_of metrics) df df1"
    and b: "sort_values_outcome top_query (metric_of metrics) (add_q_pages (add_top_query df1)) df4"
    and c: "out = \<lparr>columns = report_columns, rows = df4\<rparr>"
    by (auto simp: aggregate_run_def)
  from a have "df1 = sort_values page (metric_of metrics) df"
    by (rule sort_values_outcome_unique)
  moreover from b have "df4 = sort_values top_query (metric_of metrics) (add_q_pages (add_top_query df1))"
    by (rule sort_values_outcome_unique)
  ultimately show "out = aggregate metrics df" using c by (simp add: aggregate_def Let_def)
next
  assume "out = aggregate metrics df"
  then show "aggregate_run metrics df out"
    unfolding aggregate_run_def aggregate_def Let_def
    by (intro exI[of _ "sort_values page (metric_of metrics) df"]
              exI[of _ "sort_values top_query (metric_of metrics)
                          (add_q_pages (add_top_query (sort_values page (metric_of metrics) df)))"])
       (simp add: sort_values_outcome_sort_values)
qed

lemma get_top_query_run_iff:
  "get_top_query_run re got metrics brand_term zero_clicks res
     \<longleftrightarrow> res = get_top_query re got metrics brand_term zero_clicks"
  by (auto simp: get_top_query_run_def get_top_query_def Let_def aggregate_run_iff
           split: sum.splits)

section \<open>The claims\<close>

text \<open>
  In every statement \<open>re\<close> is any regular expression engine, \<open>got\<close> the outcome of the
  request, and the filtered input is the frame that \<open>apply_filters\<close> makes of the frame
  fetched.
\<close>

text \<open>
  C1. For every page of the filtered input, the rows of that page split at one row \<open>x\<close>:
  every row before \<open>x\<close> has a strictly smaller value of the selected metric and every row
  after it has a value at most as large, so \<open>x\<close> is the first row of the page that reaches the
  maximum. The report has rows for that page, and each of them carries the query of \<open>x\<close>
  as its \<open>top_query\<close>.
\<close>

theorem top_query_is_first_maximum:
  assumes run: "get_top_query re got metrics brand_term zero_clicks = Inr out"
    and flt: "apply_filters re brand_term zero_clicks (fetch_query_page got) = Inr df"
    and p: "p \<in> page ` set df"
  shows "\<exists>pre x post. filter (\<lambda>r. page r = p) df = pre @ x # post
           \<and> (\<forall>y\<in>set pre. metric_of metrics y < metric_of metrics x)
           \<and> (\<forall>y\<in>set post. metric_of metrics y \<le> metric_of metrics x)
           \<and> (\<exists>r\<in>set (rows out). page r = p)
           \<and> (\<forall>r\<in>set (rows out). page r = p \<longrightarrow> top_query r = query x)"
proof -
  from run flt have out: "out = aggregate metrics df" by (simp add: get_top_query_Inr)
  from first_max_of_partition[OF p, of metrics] obtain pre x post where
    g: "filter (\<lambda>r. page r = p) df = pre @ x # post"
    and h: "hd (sort_values page (metric_of metrics) (filter (\<lambda>r. page r = p) df)) = x"
    and pre: "\<forall>y\<in>set pre. metric_of metrics y < metric_of metrics x"
    and post: "\<forall>y\<in>set post. metric_of metrics y \<le> metric_of metrics x"
    by blast
  have "\<exists>r\<in>set (rows out). page r = p"
  proof -
    from p obtain x0 where "x0 \<in> set df" "page x0 = p" by auto
    then have "x0 \<in> gsc_row.truncate ` set (rows out)"
      by (simp only: out set_truncate_rows)
    then obtain r where "r \<in> set (rows out)" "gsc_row.truncate r = x0" by auto
    with \<open>page x0 = p\<close> page_truncate[of r] show ?thesis by auto
  qed
  moreover have "\<forall>r\<in>set (rows out). page r = p \<longrightarrow> top_query r = query x"
    using rows_aggregate_elem[of _ metrics df] h by (auto simp: out)
  ultimately show ?thesis using g pre post by blast
qed

theorem top_query_is_first_maximum_witness:
  "get_top_query (py_re (\<lambda>pat. None)) (Inr sample) Clicks [] (PyStr ''Si'') = Inr sample_report_clicked
   \<and> apply_filters (py_re (\<lambda>pat. None)) [] (PyStr ''Si'') (fetch_query_page (Inr sample)) = Inr sample_clicked
   \<and> ''/x'' \<in> page ` set sample_clicked
   \<and> (\<exists>pre x post. filter (\<lambda>r. page r = ''/x'') sample_clicked = pre @ x # post
           \<and> (\<forall>y\<in>set pre. metric_of Clicks y < metric_of Clicks x)
           \<and> (\<forall>y\<in>set post. metric_of Clicks y \<le> metric_of Clicks x)
           \<and> (\<exists>r\<in>set (rows sample_report_clicked). page r = ''/x'')
           \<and> (\<forall>r\<in>set (rows sample_report_clicked). page r = ''/x'' \<longrightarrow> top_query r = query x))"
proof -
  have run: "get_top_query (py_re (\<lambda>pat. None)) (Inr sample) Clicks [] (PyStr ''Si'') = Inr sample_report_clicked"
    by code_simp
  have flt: "apply_filters (py_re (\<lambda>pat. None)) [] (PyStr ''Si'') (fetch_query_page (Inr sample)) = Inr sample_clicked"
    by code_simp
  have p: "''/x'' \<in> page ` set sample_clicked"
    by code_simp
  from top_query_is_first_maximum[OF run flt p] run flt p show ?thesis by blast
qed

text \<open>
  C2, as the code has it. \<open>get_top_query\<close> raises "No hay Dataframe" exactly when the frame
  fetched is empty, which is when the source returned no rows or its request failed. The
  result is then the exception alone: no report comes with it. Nothing is checked after
  the filters.
\<close>

theorem empty_input_iff_nothing_fetched:
  "(get_top_query re got metrics brand_term zero_clicks = Inl No_hay_Dataframe)
     = (got = Inr [] \<or> (\<exists>e. got = Inl e))"
  by (cases got)
    (auto simp: get_top_query_def fetch_query_page_def Let_def
          split: sum.splits dest: apply_filters_error)

theorem empty_input_iff_nothing_fetched_witness:
  "get_top_query (py_re (\<lambda>pat. None)) (Inr []) Clicks ''brand'' (PyStr ''Si'') = Inl No_hay_Dataframe
   \<and> get_top_query (py_re (\<lambda>pat. None)) (Inl ''quota exceeded'') Clicks ''brand'' (PyStr ''Si'') = Inl No_hay_Dataframe"
  using empty_input_iff_nothing_fetched[of "py_re (\<lambda>pat. None)" "Inr []" Clicks "''brand''" "PyStr ''Si''"]
    empty_input_iff_nothing_fetched[of "py_re (\<lambda>pat. None)" "Inl ''quota exceeded''" Clicks "''brand''" "PyStr ''Si''"]
  by simp

text \<open>
  Against C2 as stated: the source returns one row, the zero-click filter removes it, and
  the function returns a report instead of raising.
\<close>

theorem filtered_empty_not_an_error_counterexample:
  "fetch_query_page (Inr [row_z]) = [row_z]
   \<and> apply_filters (py_re (\<lambda>pat. None)) [] (PyStr ''Si'') (fetch_query_page (Inr [row_z])) = Inr []
   \<and> get_top_query (py_re (\<lambda>pat. None)) (Inr [row_z]) Clicks [] (PyStr ''Si'')
       = Inr \<lparr>columns = report_columns, rows = []\<rparr>
   \<and> get_top_query (py_re (\<lambda>pat. None)) (Inr [row_z]) Clicks [] (PyStr ''Si'') \<noteq> Inl No_hay_Dataframe"
  by code_simp

text \<open>
  C3. The report has the seven columns \<open>top_query\<close>, \<open>query\<close>, \<open>clicks\<close>, \<open>impressions\<close>,
  \<open>ctr\<close>, \<open>q_pages_top_query\<close>, \<open>page\<close> in this order, and of any two of its rows the
  earlier one has the smaller \<open>top_query\<close>, or the same \<open>top_query\<close> and a value of the
  selected metric at least as large.
\<close>

theorem report_sorted_with_seven_columns:
  assumes run: "get_top_query re got metrics brand_term zero_clicks = Inr out"
  shows "columns out = [''top_query'', ''query'', ''clicks'', ''impressions'', ''ctr'',
                        ''q_pages_top_query'', ''page'']
       \<and> (\<forall>i j. i < j \<and> j < length (rows out) \<longrightarrow>
             top_query (rows out ! i) < top_query (rows out ! j)
           \<or> (top_query (rows out ! i) = top_query (rows out ! j)
              \<and> metric_of metrics (rows out ! j) \<le> metric_of metrics (rows out ! i)))"
proof -
  from run obtain df where out: "out = aggregate metrics df" by (auto simp: get_top_query_Inr)
  let ?k = "\<lambda>r::report_row. (top_query r, - metric_of metrics r)"
  have "\<exists>xs. rows out = sort_key ?k xs" by (auto simp: out aggregate_def Let_def sort_values_def)
  then have s: "sorted (map ?k (rows out))" by auto
  have "?k (rows out ! i) \<le> ?k (rows out ! j)" if "i < j" "j < length (rows out)" for i j
    using sorted_nth_mono[OF s, of i j] that by simp
  then have "\<forall>i j. i < j \<and> j < length (rows out) \<longrightarrow>
             top_query (rows out ! i) < top_query (rows out ! j)
           \<or> (top_query (rows out ! i) = top_query (rows out ! j)
              \<and> metric_of metrics (rows out ! j) \<le> metric_of metrics (rows out ! i))"
    by (auto simp: less_le)
  moreover have "columns out = report_columns" by (simp add: out aggregate_def Let_def)
  ultimately show ?thesis by (simp add: report_columns_def)
qed

theorem report_sorted_with_seven_columns_witness:
  "get_top_query (py_re (\<lambda>pat. None)) (Inr sample) Clicks [] (PyStr ''No'') = Inr sample_report
   \<and> columns sample_report = [''top_query'', ''query'', ''clicks'', ''impressions'', ''ctr'',
                                  ''q_pages_top_query'', ''page'']
   \<and> (top_query (rows sample_report ! 1) < top_query (rows sample_report ! 4)
       \<or> (top_query (rows sample_report ! 1) = top_query (rows sample_report ! 4)
          \<and> metric_of Clicks (rows sample_report ! 4) \<le> metric_of Clicks (rows sample_report ! 1)))"
proof -
  have run: "get_top_query (py_re (\<lambda>pat. None)) (Inr sample) Clicks [] (PyStr ''No'') = Inr sample_report"
    by code_simp
  have len: "(1::nat) < 4 \<and> 4 < length (rows sample_report)"
    by (simp add: sample_report_def)
  from report_sorted_with_seven_columns[OF run] len run show ?thesis by blast
qed

text \<open>
  C4. Stripped of the two added columns, the rows of the report are the rows of the filtered
  input, each as often as it occurs there, so every row keeps the page (and the query,
  clicks, impressions and ctr) of the input row it comes from. The \<open>top_query\<close> of a row
  is the query of some filtered row of the same page, and its \<open>q_pages_top_query\<close> is the
  number of filtered rows of that page.
\<close>

theorem report_rows_carry_page_top_query_and_group_size:
  assumes run: "get_top_query re got metrics brand_term zero_clicks = Inr out"
    and flt: "apply_filters re brand_term zero_clicks (fetch_query_page got) = Inr df"
  shows "mset (map gsc_row.truncate (rows out)) = mset df
       \<and> (\<forall>r\<in>set (rows out).
             top_query r \<in> query ` {x \<in> set df. page x = page r}
           \<and> q_pages_top_query r = length (filter (\<lambda>x. page x = page r) df))"
proof -
  from run flt have out: "out = aggregate metrics df" by (simp add: get_top_query_Inr)
  have "top_query r \<in> query ` {x \<in> set df. page x = page r}" if r: "r \<in> set (rows out)" for r
  proof -
    from rows_aggregate_elem[of r metrics df] r out
    have t: "gsc_row.truncate r \<in> set df"
      and tq: "top_query r = query (hd (sort_values page (metric_of metrics) (filter (\<lambda>x. page x = page r) df)))"
      by simp_all
    from t page_truncate[of r] have "page r \<in> page ` set df" by force
    from first_max_of_partition[OF this, of metrics] obtain pre x post where
      g: "filter (\<lambda>x. page x = page r) df = pre @ x # post"
      and h: "hd (sort_values page (metric_of metrics) (filter (\<lambda>x. page x = page r) df)) = x"
      by blast
    have "x \<in> set (filter (\<lambda>x. page x = page r) df)" by (simp add: g)
    then have "x \<in> {x \<in> set df. page x = page r}" by simp
    with tq h show ?thesis by blast
  qed
  moreover have "q_pages_top_query r = length (filter (\<lambda>x. page x = page r) df)"
    if "r \<in> set (rows out)" for r
    using rows_aggregate_elem[of r metrics df] that out by simp
  moreover have "mset (map gsc_row.truncate (rows out)) = mset df"
    by (simp only: out mset_truncate_rows)
  ultimately show ?thesis by blast
qed

theorem report_rows_carry_page_top_query_and_group_size_witness:
  "get_top_query (py_re (\<lambda>pat. None)) (Inr sample) Clicks [] (PyStr ''Si'') = Inr sample_report_clicked
   \<and> apply_filters (py_re (\<lambda>pat. None)) [] (PyStr ''Si'') (fetch_query_page (Inr sample)) = Inr sample_clicked
   \<and> mset (map gsc_row.truncate (rows sample_report_clicked)) = mset sample_clicked
   \<and> top_query (ranked row_a ''b'' 4)
        \<in> query ` {x \<in> set sample_clicked. page x = page (ranked row_a ''b'' 4)}
   \<and> q_pages_top_query (ranked row_a ''b'' 4)
        = length (filter (\<lambda>x. page x = page (ranked row_a ''b'' 4)) sample_clicked)"
proof -
  have run: "get_top_query (py_re (\<lambda>pat. None)) (Inr sample) Clicks [] (PyStr ''Si'') = Inr sample_report_clicked"
    by code_simp
  have flt: "apply_filters (py_re (\<lambda>pat. None)) [] (PyStr ''Si'') (fetch_query_page (Inr sample)) = Inr sample_clicked"
    by code_simp
  have r: "ranked row_a ''b'' 4 \<in> set (rows sample_report_clicked)"
    by (simp add: sample_report_clicked_def)
  from report_rows_carry_page_top_query_and_group_size[OF run flt] r run flt
  show ?thesis by blast
qed

text \<open>
  C5, as the code has it. When the brand term string is not empty and every term (the pieces
  between commas, stripped of surrounding whitespace) is plain, the brand filter keeps
  exactly the rows whose query contains none of the terms as a substring, in their order,
  and removes every row whose query contains one. Characters are compared as they are, so
  the match is case-sensitive. This holds whatever \<open>re\<close> does with other patterns.
\<close>

theorem brand_filter_plain_terms_substring:
  assumes "brand_term \<noteq> []"
    and "list_all plain_term (brand_terms brand_term)"
  shows "brand_filter (py_re other) brand_term df =
           Inr (filter (\<lambda>r. \<not> (\<exists>t\<in>set (brand_terms brand_term). sublist t (query r))) df)"
proof -
  have "brand_terms brand_term \<noteq> []" by (simp add: brand_terms_def py_split_not_Nil)
  from py_re_plain_terms[OF this assms(2), of other] assms(1) show ?thesis
    by (simp add: brand_filter_def brand_pattern_def)
qed

theorem brand_filter_plain_terms_substring_witness:
  "'' c , zz'' \<noteq> []
   \<and> list_all plain_term (brand_terms '' c , zz'')
   \<and> brand_terms '' c , zz'' = [''c'', ''zz'']
   \<and> brand_filter (py_re (\<lambda>pat. None)) '' c , zz'' sample =
        Inr (filter (\<lambda>r. \<not> (\<exists>t\<in>set (brand_terms '' c , zz''). sublist t (query r))) sample)
   \<and> brand_filter (py_re (\<lambda>pat. None)) '' c , zz'' sample = Inr [row_a, row_b, row_z, row_d, row_a]"
proof -
  have ne: "'' c , zz'' \<noteq> []" by simp
  have ts: "brand_terms '' c , zz'' = [''c'', ''zz'']" by code_simp
  have pl: "list_all plain_term (brand_terms '' c , zz'')" by code_simp
  have res: "brand_filter (py_re (\<lambda>pat. None)) '' c , zz'' sample = Inr [row_a, row_b, row_z, row_d, row_a]"
    by code_simp
  from brand_filter_plain_terms_substring[OF ne pl, of "\<lambda>pat. None" sample] ne ts pl res show ?thesis by blast
qed

text \<open>
  Against C5 as stated: the term \<open>a.c\<close> is not a substring of the query \<open>abc\<close>, yet the
  filter removes the row, because the dot of the term matches any character.
\<close>

theorem brand_filter_substring_counterexample:
  "brand_terms ''a.c'' = [''a.c'']
   \<and> \<not> sublist ''a.c'' (query row_abc)
   \<and> brand_filter (py_re (\<lambda>pat. None)) ''a.c'' [row_abc] = Inr []
   \<and> brand_filter (py_re (\<lambda>pat. None)) ''a.c'' [row_abc]
       \<noteq> Inr (filter (\<lambda>r. \<not> (\<exists>t\<in>set (brand_terms ''a.c''). sublist t (query r))) [row_abc])"
  by (simp add: brand_filter_def brand_pattern_def brand_terms_def py_strip_def isspace_def
      py_re_def re_special_def row_abc_def sublist_code)

text \<open>
  C6. With \<open>zero_clicks\<close> equal to \<open>"Si"\<close>, the filtered frame is made from the frame the brand
  filter leaves: every row of it with clicks at most 0 is dropped and every row with clicks
  above 0 is kept, in the same order.
\<close>

theorem zero_click_filter_after_brand_filter:
  assumes "apply_filters re brand_term (PyStr ''Si'') df = Inr out"
  shows "\<exists>kept. brand_filter re brand_term df = Inr kept
           \<and> out = filter (\<lambda>r. 0 < clicks r) kept
           \<and> (\<forall>r\<in>set kept. clicks r \<le> 0 \<longrightarrow> r \<notin> set out)
           \<and> (\<forall>r\<in>set kept. 0 < clicks r \<longrightarrow> r \<in> set out)"
  using assms
  by (auto simp: apply_filters_def zero_clicks_filter_def split: sum.splits)

theorem zero_click_filter_after_brand_filter_witness:
  "apply_filters (py_re (\<lambda>pat. None)) '' c , zz'' (PyStr ''Si'') sample = Inr [row_a, row_b, row_d, row_a]
   \<and> (\<exists>kept. brand_filter (py_re (\<lambda>pat. None)) '' c , zz'' sample = Inr kept
           \<and> [row_a, row_b, row_d, row_a] = filter (\<lambda>r. 0 < clicks r) kept
           \<and> (\<forall>r\<in>set kept. clicks r \<le> 0 \<longrightarrow> r \<notin> set [row_a, row_b, row_d, row_a])
           \<and> (\<forall>r\<in>set kept. 0 < clicks r \<longrightarrow> r \<in> set [row_a, row_b, row_d, row_a]))"
proof -
  have run: "apply_filters (py_re (\<lambda>pat. None)) '' c , zz'' (PyStr ''Si'') sample = Inr [row_a, row_b, row_d, row_a]"
    by code_simp
  from zero_click_filter_after_brand_filter[OF run] run show ?thesis by blast
qed

text \<open>
  C7. The report has as many rows as the filtered input, also when several rows have the
  same query and page (in the sample the pair \<open>a\<close>, \<open>/x\<close> occurs twice).
\<close>

theorem row_count_preserved:
  assumes run: "get_top_query re got metrics brand_term zero_clicks = Inr out"
    and flt: "apply_filters re brand_term zero_clicks (fetch_query_page got) = Inr df"
  shows "length (rows out) = length df"
proof -
  from run flt have out: "out = aggregate metrics df" by (simp add: get_top_query_Inr)
  have "length (rows out) = length (map gsc_row.truncate (rows out))" by simp
  also have "\<dots> = length df"
    by (rule mset_eq_length) (simp only: out mset_truncate_rows)
  finally show ?thesis .
qed

theorem row_count_preserved_witness:
  "get_top_query (py_re (\<lambda>pat. None)) (Inr sample) Clicks [] (PyStr ''No'') = Inr sample_report
   \<and> apply_filters (py_re (\<lambda>pat. None)) [] (PyStr ''No'') (fetch_query_page (Inr sample)) = Inr sample
   \<and> count_list (map (\<lambda>r. (query r, page r)) sample) (''a'', ''/x'') = 2
   \<and> length (rows sample_report) = length sample"
proof -
  have run: "get_top_query (py_re (\<lambda>pat. None)) (Inr sample) Clicks [] (PyStr ''No'') = Inr sample_report"
    by code_simp
  have flt: "apply_filters (py_re (\<lambda>pat. None)) [] (PyStr ''No'') (fetch_query_page (Inr sample)) = Inr sample"
    by code_simp
  have dup: "count_list (map (\<lambda>r. (query r, page r)) sample) (''a'', ''/x'') = 2"
    by code_simp
  from row_count_preserved[OF run flt] run flt dup show ?thesis by blast
qed

text \<open>
  C8. Two runs on the same record collection with the same metric, brand terms and
  zero-click parameter end in the same result, report row for row or exception, whichever
  procedures sorted the frames in the one run and in the other; and that result is the one
  \<open>get_top_query\<close> computes.
\<close>

theorem two_runs_same_result:
  assumes "get_top_query_run re got metrics brand_term zero_clicks res1"
    and "get_top_query_run re got metrics brand_term zero_clicks res2"
  shows "res1 = res2 \<and> res1 = get_top_query re got metrics brand_term zero_clicks"
  using assms by (simp add: get_top_query_run_iff)

theorem two_runs_same_result_witness:
  "get_top_query_run (py_re (\<lambda>pat. None)) (Inr sample) Clicks ''zz'' (PyStr ''No'') (Inr sample_report)
   \<and> get_top_query_run (py_re (\<lambda>pat. None)) (Inr sample) Clicks ''zz'' (PyStr ''No'')
         (get_top_query (py_re (\<lambda>pat. None)) (Inr sample) Clicks ''zz'' (PyStr ''No''))
   \<and> Inr sample_report = get_top_query (py_re (\<lambda>pat. None)) (Inr sample) Clicks ''zz'' (PyStr ''No'')"
proof -
  have df1: "sort_values_outcome page (metric_of Clicks) sample
               [row_b, row_d, row_a, row_a, row_c, row_z]"
    by code_simp
  have df3: "add_q_pages (add_top_query [row_b, row_d, row_a, row_a, row_c, row_z])
           = [ranked row_b ''b'' 4, ranked row_d ''b'' 4, ranked row_a ''b'' 4,
              ranked row_a ''b'' 4, ranked row_c ''c'' 1, ranked row_z ''b'' 1]"
    by code_simp
  have df4: "sort_values_outcome top_query (metric_of Clicks)
               [ranked row_b ''b'' 4, ranked row_d ''b'' 4, ranked row_a ''b'' 4,
                ranked row_a ''b'' 4, ranked row_c ''c'' 1, ranked row_z ''b'' 1]
               (rows sample_report)"
    by code_simp
  have agg: "aggregate_run Clicks sample sample_report"
  proof -
    have "sort_values_outcome top_query (metric_of Clicks)
            (add_q_pages (add_top_query [row_b, row_d, row_a, row_a, row_c, row_z]))
            (rows sample_report)"
      by (subst df3) (rule df4)
    moreover have "sample_report = \<lparr>columns = report_columns, rows = rows sample_report\<rparr>"
      by (simp add: sample_report_def)
    ultimately show ?thesis
      unfolding aggregate_run_def using df1 by blast
  qed
  have ne: "fetch_query_page (Inr sample) \<noteq> []" by code_simp
  have flt: "apply_filters (py_re (\<lambda>pat. None)) ''zz'' (PyStr ''No'') (fetch_query_page (Inr sample))
           = Inr sample"
    by code_simp
  have run1: "get_top_query_run (py_re (\<lambda>pat. None)) (Inr sample) Clicks ''zz'' (PyStr ''No'')
                (Inr sample_report)"
    using ne flt agg by (simp add: get_top_query_run_def Let_def)
  have run2: "get_top_query_run (py_re (\<lambda>pat. None)) (Inr sample) Clicks ''zz'' (PyStr ''No'')
                (get_top_query (py_re (\<lambda>pat. None)) (Inr sample) Clicks ''zz'' (PyStr ''No''))"
    by (simp add: get_top_query_run_iff)
  from two_runs_same_result[OF run1 run2] run1 run2 show ?thesis by blast
qed

text \<open>
  C9. When the frame fetched is not empty and the filters remove every row, \<open>get_top_query\<close>
  raises nothing: it returns the report with the seven columns and no row.
\<close>

theorem filtered_empty_gives_empty_report:
  assumes "fetch_query_page got \<noteq> []"
    and "apply_filters re brand_term zero_clicks (fetch_query_page got) = Inr []"
  shows "get_top_query re got metrics brand_term zero_clicks
       = Inr \<lparr>columns = [''top_query'', ''query'', ''clicks'', ''impressions'', ''ctr'',
                          ''q_pages_top_query'', ''page''],
              rows = []\<rparr>"
  using assms
  by (simp add: get_top_query_def aggregate_def sort_values_def add_top_query_def
      add_q_pages_def report_columns_def)

theorem filtered_empty_gives_empty_report_witness:
  "fetch_query_page (Inr [row_c, row_z]) \<noteq> []
   \<and> apply_filters (py_re (\<lambda>pat. None)) ''c'' (PyStr ''Si'') (fetch_query_page (Inr [row_c, row_z])) = Inr []
   \<and> get_top_query (py_re (\<lambda>pat. None)) (Inr [row_c, row_z]) Impressions ''c'' (PyStr ''Si'')
       = Inr \<lparr>columns = [''top_query'', ''query'', ''clicks'', ''impressions'', ''ctr'',
                          ''q_pages_top_query'', ''page''],
              rows = []\<rparr>"
proof -
  have ne: "fetch_query_page (Inr [row_c, row_z]) \<noteq> []" by code_simp
  have flt: "apply_filters (py_re (\<lambda>pat. None)) ''c'' (PyStr ''Si'') (fetch_query_page (Inr [row_c, row_z])) = Inr []"
    by code_simp
  from filtered_empty_gives_empty_report[OF ne flt] ne flt show ?thesis by blast
qed

text \<open>
  C10. For every value of \<open>zero_clicks\<close> other than the string \<open>"Si"\<close> (the string \<open>"No"\<close>,
  \<open>True\<close>, any other string) the zero-click filter returns its frame unchanged, and the
  filtered input is what the brand filter leaves.
\<close>

theorem zero_clicks_kept_unless_Si:
  assumes "zero_clicks \<noteq> PyStr ''Si''"
  shows "zero_clicks_filter zero_clicks df = df
       \<and> apply_filters re brand_term zero_clicks df = brand_filter re brand_term df"
proof -
  from assms have "\<not> py_eq_str zero_clicks ''Si''" by (cases zero_clicks) simp_all
  then show ?thesis
    by (simp add: zero_clicks_filter_def apply_filters_def split: sum.splits)
qed

theorem zero_clicks_kept_unless_Si_witness:
  "PyBool True \<noteq> PyStr ''Si'' \<and> PyStr ''No'' \<noteq> PyStr ''Si'' \<and> PyStr ''si'' \<noteq> PyStr ''Si''
   \<and> zero_clicks_filter (PyBool True) [row_z, row_c] = [row_z, row_c]
   \<and> zero_clicks_filter (PyStr ''No'') [row_z, row_c] = [row_z, row_c]
   \<and> zero_clicks_filter (PyStr ''si'') [row_z, row_c] = [row_z, row_c]
   \<and> apply_filters (py_re (\<lambda>pat. None)) [] (PyBool True) [row_z, row_c] = brand_filter (py_re (\<lambda>pat. None)) [] [row_z, row_c]
   \<and> zero_clicks_filter (PyStr ''Si'') [row_z, row_c] = [row_c]"
proof -
  have a: "PyBool True \<noteq> PyStr ''Si''" and b: "PyStr ''No'' \<noteq> PyStr ''Si''"
    and c: "PyStr ''si'' \<noteq> PyStr ''Si''" by simp_all
  have d: "zero_clicks_filter (PyStr ''Si'') [row_z, row_c] = [row_c]" by code_simp
  from zero_clicks_kept_unless_Si[OF a, of "[row_z, row_c]" "py_re (\<lambda>pat. None)" "[]"]
    zero_clicks_kept_unless_Si[OF b, of "[row_z, row_c]" "py_re (\<lambda>pat. None)" "[]"]
    zero_clicks_kept_unless_Si[OF c, of "[row_z, row_c]" "py_re (\<lambda>pat. None)" "[]"] a b c d
  show ?thesis by blast
qed

end
